theory Spec2Isabelle
  imports Complex_Main
begin

section \<open>Python values\<close>

text \<open>
  The broker passes dynamically typed values around: the results of the plugins'
  \<^verbatim>\<open>message\<close> calls, the fields of a message. Only the values the broker
  inspects are modelled.
\<close>

datatype status = SUCCEEDED | FAILED

text \<open>
  Modelled from the spec: the constants \<^verbatim>\<open>SUCCEEDED\<close> and \<^verbatim>\<open>FAILED\<close> of
  \<^verbatim>\<open>landscape.manager.manager\<close>. Their values are not part of the sources at hand;
  the spec only names them, so they are kept symbolic (\<open>PyStatus\<close>).
\<close>

datatype pyval =
    PyNone
  | PyBool bool
  | PyInt int
  | PyStr string
  | PyStatus status

text \<open>Python's \<^verbatim>\<open>==\<close>: a bool is an int (\<^verbatim>\<open>True == 1\<close>).\<close>

fun py_eq :: "pyval \<Rightarrow> pyval \<Rightarrow> bool" where
  "py_eq (PyBool a) (PyInt n) = ((if a then 1 else 0) = n)"
| "py_eq (PyInt n) (PyBool a) = (n = (if a then 1 else 0))"
| "py_eq x y = (x = y)"

text \<open>Python's truth value of an object.\<close>

fun truthy :: "pyval \<Rightarrow> bool" where
  "truthy PyNone = False"
| "truthy (PyBool b) = b"
| "truthy (PyInt n) = (n \<noteq> 0)"
| "truthy (PyStr s) = (s \<noteq> [])"
| "truthy (PyStatus s) = True"

text \<open>\<^verbatim>\<open>x in xs\<close> on a list: some element is equal to \<open>x\<close>.\<close>

definition py_in :: "pyval \<Rightarrow> pyval list \<Rightarrow> bool" where
  "py_in x xs = list_ex (py_eq x) xs"

fun digit_char :: "nat \<Rightarrow> char" where
  "digit_char n = char_of (48 + n)"

fun show_nat :: "nat \<Rightarrow> string" where
  "show_nat n = (if n < 10 then [digit_char n] else show_nat (n div 10) @ [digit_char (n mod 10)])"

declare show_nat.simps [simp del]

text \<open>What \<^verbatim>\<open>"%s" % (v,)\<close> prints.\<close>

fun py_str :: "pyval \<Rightarrow> string" where
  "py_str PyNone = ''None''"
| "py_str (PyBool b) = (if b then ''True'' else ''False'')"
| "py_str (PyInt n) = (if n < 0 then ''-'' @ show_nat (nat (- n)) else show_nat (nat n))"
| "py_str (PyStr s) = s"
| "py_str (PyStatus SUCCEEDED) = ''SUCCEEDED''"
| "py_str (PyStatus FAILED) = ''FAILED''"

section \<open>The broker and its collaborators\<close>

text \<open>A message is a dict from field names to values.\<close>

type_synonym message = "string \<rightharpoonup> pyval"

text \<open>A registered plugin: the pair \<^verbatim>\<open>(bus_name, object_path)\<close>.\<close>

type_synonym plugin = "string \<times> string"

text \<open>
  \<^verbatim>\<open>byte_array(dumps(message))\<close>: the serialised message. The serialiser
  (\<^verbatim>\<open>landscape.lib.bpickle\<close>) is a collaborator, so the blob is kept symbolic.
\<close>

datatype blob = Dumps message

text \<open>What the callback scheduled by \<^verbatim>\<open>exit\<close> does when it runs.\<close>

datatype later = FireEvent string

text \<open>
  The broker acts on its collaborators (reactor, bus, plugins, exchange, configuration,
  log). Each call is recorded, in program order.
\<close>

datatype effect =
    ReactorFire string
  | ReactorCallLater int later
  | GetObject plugin "int option"
  | PluginMessage plugin blob
  | PluginExit plugin
  | ExchangeSend message bool
  | ConfigReload
  | LogError string

text \<open>
  A Deferred either has not fired yet (\<open>None\<close>) or has fired with a result or a
  failure.
\<close>

datatype 'a outcome = Success 'a | Failure string

type_synonym 'a deferred = "'a outcome option"

text \<open>
  \<^verbatim>\<open>self._registered_plugins\<close> is a set of pairs. It is kept as a list without
  duplicates: the order in which Python iterates over the set, whatever that order is.
\<close>

record broker =
  registered_plugins :: "plugin list"

text \<open>
  \<^verbatim>\<open>register_plugin(bus_name, object_path)\<close> adds the pair to the set. The order in
  which the set is iterated afterwards is not determined by the code, so the broker after
  the call is any broker \<open>b'\<close> that holds the same pairs and the new one, each once.
\<close>

definition register_plugin :: "string \<Rightarrow> string \<Rightarrow> broker \<Rightarrow> broker \<Rightarrow> bool" where
  "register_plugin bus_name object_path b b' =
     (set (registered_plugins b') = insert (bus_name, object_path) (set (registered_plugins b))
      \<and> distinct (registered_plugins b'))"

text \<open>\<^verbatim>\<open>get_registered_plugins()\<close>: \<^verbatim>\<open>list(self._registered_plugins)\<close>.\<close>

definition get_registered_plugins :: "broker \<Rightarrow> plugin list" where
  "get_registered_plugins b = registered_plugins b"

text \<open>
  \<^verbatim>\<open>get_plugin_objects(retry_timeout)\<close>: one \<^verbatim>\<open>get_object\<close> call for each
  registered plugin, with the given retry timeout. The proxy of a plugin is identified with
  the plugin.
\<close>

definition get_plugin_objects :: "broker \<Rightarrow> int option \<Rightarrow> effect list \<times> plugin list" where
  "get_plugin_objects b retry_timeout =
     (map (\<lambda>p. GetObject p retry_timeout) (registered_plugins b), registered_plugins b)"

text \<open>
  Modelled from the spec: \<^verbatim>\<open>gather_results\<close> of \<^verbatim>\<open>landscape.lib.twisted_util\<close>,
  which is not part of the sources at hand. The spec says of the join that it waits for
  all invocations to settle, success or failure, before proceeding; that a failing
  endpoint is excluded from the aggregate success and never aborts the join; and that in
  the shutdown phase the individual failures are swallowed. So the joined Deferred has
  not fired while an invocation is pending, and then fires with the list of the results
  of the invocations that succeeded. The spec gives \<^verbatim>\<open>consume_errors\<close> no effect on
  the joined result.
\<close>

fun successes :: "'a deferred list \<Rightarrow> 'a list" where
  "successes [] = []"
| "successes (Some (Success v) # ds) = v # successes ds"
| "successes (Some (Failure e) # ds) = successes ds"
| "successes (None # ds) = successes ds"

definition gather_results :: "bool \<Rightarrow> 'a deferred list \<Rightarrow> 'a list deferred" where
  "gather_results consume_errors ds =
     (if None \<in> set ds then None else Some (Success (successes ds)))"

text \<open>\<^verbatim>\<open>d.addCallback(f)\<close>, for a callback with effects that may raise.\<close>

definition addCallback ::
  "('a \<Rightarrow> effect list \<times> 'b outcome) \<Rightarrow> effect list \<times> 'a deferred \<Rightarrow> effect list \<times> 'b deferred"
where
  "addCallback f td =
     (case snd td of
        None \<Rightarrow> (fst td, None)
      | Some (Failure e) \<Rightarrow> (fst td, Some (Failure e))
      | Some (Success v) \<Rightarrow> (fst td @ fst (f v), Some (snd (f v))))"

text \<open>\<^verbatim>\<open>d.addBoth(f)\<close>: the callback runs on a result and on a failure alike.\<close>

definition addBoth ::
  "('a outcome \<Rightarrow> effect list \<times> 'b outcome) \<Rightarrow> effect list \<times> 'a deferred \<Rightarrow> effect list \<times> 'b deferred"
where
  "addBoth f td =
     (case snd td of
        None \<Rightarrow> (fst td, None)
      | Some r \<Rightarrow> (fst td @ fst (f r), Some (snd (f r))))"

definition result_text :: "pyval \<Rightarrow> string" where
  "result_text mtype =
     ''Landscape client failed to handle this request ('' @ py_str mtype @
     '') because the plugin\<newline>'' @
     ''which should handle it wasn't available at that time. This could mean that\<newline>'' @
     ''the plugin has been intentionally disabled, or that the client isn't running\<newline>'' @
     ''properly.\<newline>'' @
     ''\<newline>'' @
     ''Please contact the Landscape team for more information.\<newline>''"

definition response :: "pyval \<Rightarrow> pyval \<Rightarrow> message" where
  "response mtype opid =
     [''type'' \<mapsto> PyStr ''operation-result'',
      ''status'' \<mapsto> PyStatus FAILED,
      ''result-text'' \<mapsto> PyStr (result_text mtype),
      ''operation-id'' \<mapsto> opid]"

text \<open>\<^verbatim>\<open>message.get("operation-id")\<close>.\<close>

definition get_opid :: "message \<Rightarrow> pyval" where
  "get_opid message = (case message ''operation-id'' of None \<Rightarrow> PyNone | Some v \<Rightarrow> v)"

text \<open>
  \<^verbatim>\<open>_message_delivered(results, message)\<close>. The condition is evaluated left to right;
  \<^verbatim>\<open>message["type"]\<close> raises \<^verbatim>\<open>KeyError\<close> when the field is missing, and is
  only reached when the first two conjuncts hold.
\<close>

definition message_delivered :: "pyval list \<Rightarrow> message \<Rightarrow> effect list \<times> pyval outcome" where
  "message_delivered results message =
     (let opid = get_opid message in
      if \<not> py_in (PyBool True) results \<and> opid \<noteq> PyNone then
        (case message ''type'' of
           None \<Rightarrow> ([], Failure ''KeyError'')
         | Some mtype \<Rightarrow>
             if \<not> py_eq mtype (PyStr ''resynchronize'') then
               ([LogError (''Nobody handled the '' @ py_str mtype @ '' message.''),
                 ExchangeSend (response mtype opid) True],
                Success PyNone)
             else ([], Success PyNone))
      else ([], Success PyNone))"

text \<open>
  \<^verbatim>\<open>_broadcast_message(message)\<close>. \<open>replies p\<close> is the state of the Deferred that
  \<^verbatim>\<open>plugin.message(blob)\<close> returned for plugin \<open>p\<close>.
\<close>

definition broadcast_message ::
  "broker \<Rightarrow> (plugin \<Rightarrow> pyval deferred) \<Rightarrow> message \<Rightarrow> effect list \<times> pyval deferred"
where
  "broadcast_message b replies message =
     (let blob = Dumps message;
          (gets, plugins) = get_plugin_objects b None;
          calls = map (\<lambda>p. PluginMessage p blob) plugins;
          results = map replies plugins
      in addCallback (\<lambda>rs. message_delivered rs message)
           (gets @ calls, gather_results False results))"

text \<open>\<^verbatim>\<open>stop_plugins()\<close>. \<open>exits p\<close> is the state of the Deferred of \<^verbatim>\<open>plugin.exit()\<close>.\<close>

definition stop_plugins ::
  "broker \<Rightarrow> (plugin \<Rightarrow> pyval deferred) \<Rightarrow> effect list \<times> pyval deferred"
where
  "stop_plugins b exits =
     (let (gets, plugins) = get_plugin_objects b (Some 0);
          calls = map PluginExit plugins;
          results = map exits plugins
      in addCallback (\<lambda>ignored. ([], Success PyNone))
           (gets @ calls, gather_results True results))"

text \<open>\<^verbatim>\<open>reload_configuration()\<close>.\<close>

definition reload_configuration ::
  "broker \<Rightarrow> (plugin \<Rightarrow> pyval deferred) \<Rightarrow> effect list \<times> pyval deferred"
where
  "reload_configuration b exits =
     (let (effs, result) = stop_plugins b exits in (ConfigReload # effs, result))"

text \<open>
  \<^verbatim>\<open>exit()\<close>. \<^verbatim>\<open>fire_post_exit\<close> schedules the firing of \<^verbatim>\<open>"post-exit"\<close> and
  returns \<^verbatim>\<open>None\<close>.
\<close>

definition fire_post_exit :: "pyval outcome \<Rightarrow> effect list \<times> pyval outcome" where
  "fire_post_exit ignored = ([ReactorCallLater 1 (FireEvent ''post-exit'')], Success PyNone)"

definition exit_broker ::
  "broker \<Rightarrow> (plugin \<Rightarrow> pyval deferred) \<Rightarrow> effect list \<times> pyval deferred"
where
  "exit_broker b exits =
     (let (effs, result) = stop_plugins b exits
      in addBoth fire_post_exit (ReactorFire ''pre-exit'' # effs, result))"

text \<open>The messages handed to the exchange, with their urgency, in order.\<close>

fun sends :: "effect list \<Rightarrow> (message \<times> bool) list" where
  "sends [] = []"
| "sends (ExchangeSend m u # es) = (m, u) # sends es"
| "sends (e # es) = sends es"

section \<open>The reactor\<close>

text \<open>
  Modelled from the spec: the module \<^verbatim>\<open>landscape.reactor\<close> (\<^verbatim>\<open>Reactor\<close>,
  \<^verbatim>\<open>FakeReactor\<close>) is not part of the sources at hand, only its tests are. This
  section follows the spec's data model (TimedCall, EventSubscription) and its description
  of the Scheduler and of the Fake Scheduler.
\<close>

text \<open>
  Modelled from the spec: event types are opaque comparable keys, plain tags or
  namespaced tags.
\<close>

datatype event_type = Tag string | Namespaced string string

text \<open>
  Modelled from the spec: a handler returns a value or raises. It may change the state
  of the program (\<open>'u\<close>) before it does either.
\<close>

datatype hresult = Returned pyval | Raised string

text \<open>
  Modelled from the spec: the thread something runs on. The fake runs the action of
  \<^verbatim>\<open>call_in_thread\<close> in-line and still reports a thread identity of its own for it.
\<close>

datatype thread = LoopThread | WorkerThread

text \<open>
  Modelled from the spec: the structured error information an errback receives: the type
  of the exception, its value and the traceback.
\<close>

datatype exc_info = ExcInfo string string string

text \<open>
  Modelled from the spec: what was run for a thread hand-off: the action, the callback
  with the value it received, the errback with the error information it received, or a
  call queued by \<^verbatim>\<open>call_in_main\<close>.
\<close>

datatype called = TheAction | TheCallback pyval | TheErrback exc_info | InMain

text \<open>
  Modelled from the spec: what happened, in order: a timed call was fired, a handler was
  invoked (its subscription, its name, what came of it), something was run on a thread.
\<close>

datatype invocation =
    FiredCall nat
  | CalledHandler nat string hresult
  | Ran thread called

text \<open>
  Modelled from the spec: the action given to \<^verbatim>\<open>call_in_thread\<close> returns a value or
  raises.
\<close>

datatype aresult = Value pyval | Error exc_info

text \<open>
  Modelled from the spec: a call waiting to be run on the loop thread: a function on the
  state of the program, with what it is, or a line for the log.
\<close>

datatype 'u job = MainCall called "'u \<Rightarrow> 'u" | MainLog string

text \<open>
  Modelled from the spec: the action of a timed call. It acts on the state of the
  program and on the scheduler, through \<^verbatim>\<open>cancel_call\<close>, \<^verbatim>\<open>call_later\<close> and
  \<^verbatim>\<open>call_every\<close>; it may raise.
\<close>

datatype 'u action =
    Effect "'u \<Rightarrow> 'u"
  | CancelCall nat
  | CallLater rat "'u action"
  | CallEvery rat "'u action"
  | Raise string
  | Seq "'u action" "'u action"

text \<open>
  Modelled from the spec: TimedCall \<^verbatim>\<open>{id, due_time, interval, action, args, active}\<close>.
  The arguments are part of the action.
\<close>

record 'u timed_call =
  call_id :: nat
  due_time :: rat
  interval :: "rat option"
  action :: "'u action"
  active :: bool

text \<open>
  Modelled from the spec: EventSubscription \<^verbatim>\<open>{id, event_type, handler, priority}\<close>.
  The handler has a name, for the log.
\<close>

record 'u subscription =
  sub_id :: nat
  event_type :: event_type
  handler_name :: string
  handler :: "pyval list \<Rightarrow> 'u \<Rightarrow> hresult \<times> 'u"
  priority :: int

text \<open>
  Modelled from the spec: the state of the Fake Scheduler: the virtual clock, the
  timed calls and the subscriptions in the order of their registration, the calls queued
  for the loop thread, the log, and the state of the program the handlers and actions act
  on.
\<close>

record 'u reactor =
  current_time :: rat
  next_id :: nat
  calls :: "'u timed_call list"
  subs :: "'u subscription list"
  main_queue :: "'u job list"
  logged :: "string list"
  user :: 'u
  trace :: "invocation list"

text \<open>Modelled from the spec: the virtual clock is seeded at 0.\<close>

definition FakeReactor :: "'u \<Rightarrow> 'u reactor" where
  "FakeReactor u =
     \<lparr>current_time = 0, next_id = 0, calls = [], subs = [], main_queue = [], logged = [], user = u, trace = []\<rparr>"

text \<open>Modelled from the spec: \<^verbatim>\<open>time()\<close> returns the virtual clock.\<close>

definition time :: "'u reactor \<Rightarrow> rat" where
  "time r = current_time r"




text \<open>
  Modelled from the spec: \<^verbatim>\<open>call_on(event_type, handler, priority=0)\<close> subscribes and
  returns a cancellable id.
\<close>

definition call_on ::
  "event_type \<Rightarrow> string \<Rightarrow> (pyval list \<Rightarrow> 'u \<Rightarrow> hresult \<times> 'u) \<Rightarrow> int \<Rightarrow> 'u reactor
     \<Rightarrow> nat \<times> 'u reactor"
where
  "call_on ev name h prio r =
     (next_id r,
      r\<lparr>next_id := Suc (next_id r),
        subs := subs r @
          [\<lparr>sub_id = next_id r, event_type = ev, handler_name = name, handler = h,
            priority = prio\<rparr>]\<rparr>)"

definition call_on_default ::
  "event_type \<Rightarrow> string \<Rightarrow> (pyval list \<Rightarrow> 'u \<Rightarrow> hresult \<times> 'u) \<Rightarrow> 'u reactor \<Rightarrow> nat \<times> 'u reactor"
where
  "call_on_default ev name h r = call_on ev name h 0 r"

text \<open>
  Modelled from the spec: \<^verbatim>\<open>fire(event_type, *args)\<close> invokes the active
  subscriptions of the event type, sorted ascending by priority, with the same arguments;
  it collects the return values in invocation order. A handler that raises is caught and
  logged, and gives no result; the handlers after it still run.
\<close>

definition subscribed :: "event_type \<Rightarrow> 'u reactor \<Rightarrow> 'u subscription list" where
  "subscribed ev r = filter (\<lambda>s. event_type s = ev) (subs r)"

definition error_entry :: "string \<Rightarrow> string \<Rightarrow> string" where
  "error_entry name e = ''Error running event handler '' @ name @ '': '' @ e"

fun dispatch :: "'u subscription list \<Rightarrow> pyval list \<Rightarrow> 'u reactor \<Rightarrow> pyval list \<times> 'u reactor" where
  "dispatch [] args r = ([], r)"
| "dispatch (s # ss) args r =
     (case handler s args (user r) of
        (Returned v, u) \<Rightarrow>
          (let (vs, r') =
                 dispatch ss args
                   (r\<lparr>user := u,
                      trace := trace r @ [CalledHandler (sub_id s) (handler_name s) (Returned v)]\<rparr>)
           in (v # vs, r'))
      | (Raised e, u) \<Rightarrow>
          dispatch ss args
            (r\<lparr>user := u,
               trace := trace r @ [CalledHandler (sub_id s) (handler_name s) (Raised e)],
               logged := logged r @ [error_entry (handler_name s) e]\<rparr>))"

definition fire :: "event_type \<Rightarrow> pyval list \<Rightarrow> 'u reactor \<Rightarrow> pyval list \<times> 'u reactor" where
  "fire ev args r = dispatch (sort_key priority (subscribed ev r)) args r"









text \<open>
  Modelled from the spec: \<^verbatim>\<open>call_in_main(action)\<close> queues the action; it runs on the
  loop thread when the loop next processes its queue.
\<close>

definition enqueue :: "'u job \<Rightarrow> 'u reactor \<Rightarrow> 'u reactor" where
  "enqueue j r = r\<lparr>main_queue := main_queue r @ [j]\<rparr>"

definition call_in_main :: "('u \<Rightarrow> 'u) \<Rightarrow> 'u reactor \<Rightarrow> 'u reactor" where
  "call_in_main f r = enqueue (MainCall InMain f) r"

definition error_report :: "exc_info \<Rightarrow> string" where
  "error_report e = (case e of ExcInfo t v tb \<Rightarrow> tb @ t @ '': '' @ v)"

text \<open>
  Modelled from the spec: \<^verbatim>\<open>call_in_thread(callback, errback, action)\<close> runs the
  action off the loop thread; the action may change the state of the program. What comes
  of it is handed back through \<^verbatim>\<open>call_in_main\<close>: the callback with the value, or the
  errback with the error information, or, with no errback, the logging of the error.
  Nothing is handed back for a value when there is no callback.
\<close>

definition call_in_thread ::
  "(pyval \<Rightarrow> 'u \<Rightarrow> 'u) option \<Rightarrow> (exc_info \<Rightarrow> 'u \<Rightarrow> 'u) option \<Rightarrow> ('u \<Rightarrow> aresult \<times> 'u)
     \<Rightarrow> 'u reactor \<Rightarrow> 'u reactor"
where
  "call_in_thread callback errback act r =
     (let (res, u) = act (user r);
          r1 = r\<lparr>user := u, trace := trace r @ [Ran WorkerThread TheAction]\<rparr>
      in case res of
           Value v \<Rightarrow>
             (case callback of
                None \<Rightarrow> r1
              | Some c \<Rightarrow> enqueue (MainCall (TheCallback v) (c v)) r1)
         | Error e \<Rightarrow>
             (case errback of
                None \<Rightarrow> enqueue (MainLog (error_report e)) r1
              | Some f \<Rightarrow> enqueue (MainCall (TheErrback e) (f e)) r1))"

text \<open>
  Modelled from the spec: the loop drains the queue: every queued call runs once, on the
  loop thread, in the order of queueing.
\<close>

fun run_job :: "'u job \<Rightarrow> 'u reactor \<Rightarrow> 'u reactor" where
  "run_job (MainCall k f) r = r\<lparr>user := f (user r), trace := trace r @ [Ran LoopThread k]\<rparr>"
| "run_job (MainLog line) r = r\<lparr>logged := logged r @ [line]\<rparr>"

definition process_main_queue :: "'u reactor \<Rightarrow> 'u reactor" where
  "process_main_queue r = foldl (\<lambda>r j. run_job j r) (r\<lparr>main_queue := []\<rparr>) (main_queue r)"

subsection \<open>Runs and traces\<close>

text \<open>
  The rest of this section is not part of the reactor: it names what the properties below
  speak about.
\<close>


text \<open>
  What a trace says: the handlers invoked, the values returned, the exceptions raised
  (with the name of the handler).
\<close>

fun handler_ids :: "invocation list \<Rightarrow> nat list" where
  "handler_ids [] = []"
| "handler_ids (CalledHandler i n x # tr) = i # handler_ids tr"
| "handler_ids (x # tr) = handler_ids tr"

fun returned :: "invocation list \<Rightarrow> pyval list" where
  "returned [] = []"
| "returned (CalledHandler i n (Returned v) # tr) = v # returned tr"
| "returned (x # tr) = returned tr"

fun raised :: "invocation list \<Rightarrow> (string \<times> string) list" where
  "raised [] = []"
| "raised (CalledHandler i n (Raised e) # tr) = (n, e) # raised tr"
| "raised (x # tr) = raised tr"

text \<open>
  What the handlers of \<open>ss\<close>, invoked one after the other with \<open>args\<close>, make of
  the state \<open>u\<close> of the program; and the invocations themselves: the \<open>k\<close>-th
  handler is invoked on the state the handlers before it have left, and what comes of it is
  recorded.
\<close>

definition run_handlers :: "'u subscription list \<Rightarrow> pyval list \<Rightarrow> 'u \<Rightarrow> 'u" where
  "run_handlers ss args u = foldl (\<lambda>u s. snd (handler s args u)) u ss"

definition invocations :: "'u subscription list \<Rightarrow> pyval list \<Rightarrow> 'u \<Rightarrow> invocation list" where
  "invocations ss args u =
     map (\<lambda>k. CalledHandler (sub_id (ss ! k)) (handler_name (ss ! k))
                (fst (handler (ss ! k) args (run_handlers (take k ss) args u))))
       [0..<length ss]"


text \<open>What \<open>r'\<close> has recorded since \<open>r\<close>.\<close>

definition since :: "'u reactor \<Rightarrow> 'u reactor \<Rightarrow> invocation list" where
  "since r r' = drop (length (trace r)) (trace r')"

text \<open>The action raises, whatever the state.\<close>

fun raises :: "'u action \<Rightarrow> bool" where
  "raises (Raise e) = True"
| "raises (Seq a b) = (raises a \<or> raises b)"
| "raises a = False"


text \<open>The action schedules a call.\<close>

fun schedules :: "'u action \<Rightarrow> bool" where
  "schedules (CallLater d a) = True"
| "schedules (CallEvery d a) = True"
| "schedules (Seq a b) = (schedules a \<or> schedules b)"
| "schedules a = False"

text \<open>The action only acts on the state of the program, or raises.\<close>

fun plain :: "'u action \<Rightarrow> bool" where
  "plain (Effect f) = True"
| "plain (Raise e) = True"
| "plain (Seq a b) = (plain a \<and> plain b)"
| "plain a = False"

text \<open>What the action does to the state of the program.\<close>

fun effect_of :: "'u action \<Rightarrow> 'u \<Rightarrow> 'u" where
  "effect_of (Effect f) u = f u"
| "effect_of (Seq a b) u = (if raises a then effect_of a u else effect_of b (effect_of a u))"
| "effect_of a u = u"


definition others_quiet :: "nat \<Rightarrow> 'u reactor \<Rightarrow> bool" where
  "others_quiet i r = list_all (\<lambda>c. call_id c = i \<or> \<not> active c) (calls r)"





section \<open>Properties of the broker\<close>

lemma sends_append: "sends (xs @ ys) = sends xs @ sends ys"
  by (induction xs rule: sends.induct) simp_all

lemma sends_get_objects: "sends (map (\<lambda>p. GetObject p t) ps) = []"
  by (induction ps) simp_all

lemma sends_plugin_messages: "sends (map (\<lambda>p. PluginMessage p bl) ps) = []"
  by (induction ps) simp_all

lemma py_in_successes:
  "py_in x (successes (map replies ps)) =
     (\<exists>p\<in>set ps. \<exists>v. replies p = Some (Success v) \<and> py_eq x v)"
proof (induction ps)
  case Nil
  show ?case by (simp add: py_in_def)
next
  case (Cons p ps)
  show ?case
  proof (cases "replies p")
    case None
    with Cons show ?thesis by (simp add: py_in_def)
  next
    case (Some r)
    with Cons show ?thesis by (cases r) (auto simp: py_in_def)
  qed
qed

lemma sends_message_delivered:
  "message ''type'' = Some mtype \<Longrightarrow>
   sends (fst (message_delivered results message)) =
     (if \<not> py_in (PyBool True) results \<and> get_opid message \<noteq> PyNone
           \<and> \<not> py_eq mtype (PyStr ''resynchronize'')
      then [(response mtype (get_opid message), True)] else [])"
  by (simp add: message_delivered_def Let_def)

lemma broadcast_message_settled:
  "\<forall>p\<in>set (registered_plugins b). replies p \<noteq> None \<Longrightarrow>
   broadcast_message b replies message =
     (map (\<lambda>p. GetObject p None) (registered_plugins b)
        @ map (\<lambda>p. PluginMessage p (Dumps message)) (registered_plugins b)
        @ fst (message_delivered (successes (map replies (registered_plugins b))) message),
      Some (snd (message_delivered (successes (map replies (registered_plugins b))) message)))"
  by (auto simp: broadcast_message_def get_plugin_objects_def gather_results_def
      addCallback_def Let_def)

lemma pending_iff: "None \<in> set (map f ps) \<longleftrightarrow> (\<exists>p\<in>set ps. f p = None)"
  by force

lemma broadcast_message_pending:
  "\<exists>p\<in>set (registered_plugins b). replies p = None \<Longrightarrow>
   broadcast_message b replies message =
     (map (\<lambda>p. GetObject p None) (registered_plugins b)
        @ map (\<lambda>p. PluginMessage p (Dumps message)) (registered_plugins b), None)"
  using pending_iff [of replies "registered_plugins b"]
  by (simp add: broadcast_message_def get_plugin_objects_def gather_results_def
      addCallback_def Let_def)

lemma fst_stop_plugins:
  "fst (stop_plugins b exits) =
     map (\<lambda>p. GetObject p (Some 0)) (registered_plugins b) @ map PluginExit (registered_plugins b)"
  by (simp add: stop_plugins_def get_plugin_objects_def addCallback_def gather_results_def Let_def)

lemma snd_stop_plugins:
  "snd (stop_plugins b exits) =
     (if \<exists>p\<in>set (registered_plugins b). exits p = None then None else Some (Success PyNone))"
  using pending_iff [of exits "registered_plugins b"]
  by (simp add: stop_plugins_def get_plugin_objects_def addCallback_def gather_results_def Let_def)

text \<open>
  C1, as the code has it. For every broadcast of a message that has a \<^verbatim>\<open>type\<close>
  field: while a \<^verbatim>\<open>message\<close> call is pending nothing is handed to the exchange, and
  once all of them have settled, exactly one response is handed to the exchange, marked
  urgent, if no plugin returned a result equal to \<^verbatim>\<open>True\<close> (Python's \<^verbatim>\<open>==\<close>),
  \<^verbatim>\<open>message.get("operation-id")\<close> is not \<^verbatim>\<open>None\<close> and the type is not
  \<^verbatim>\<open>"resynchronize"\<close>; otherwise none is. The response has type
  \<^verbatim>\<open>"operation-result"\<close>, status \<^verbatim>\<open>FAILED\<close>, the operation-id of the message and
  the fixed text.
\<close>

theorem broadcast_failure_response:
  assumes "message ''type'' = Some mtype"
  shows "((\<exists>p\<in>set (registered_plugins b). replies p = None) \<longrightarrow>
            sends (fst (broadcast_message b replies message)) = [])
    \<and> ((\<forall>p\<in>set (registered_plugins b). replies p \<noteq> None) \<longrightarrow>
          sends (fst (broadcast_message b replies message)) =
            (if (\<forall>p\<in>set (registered_plugins b). \<forall>v.
                    replies p = Some (Success v) \<longrightarrow> \<not> py_eq (PyBool True) v)
                \<and> get_opid message \<noteq> PyNone
                \<and> \<not> py_eq mtype (PyStr ''resynchronize'')
             then [(response mtype (get_opid message), True)] else []))
    \<and> response mtype (get_opid message) ''type'' = Some (PyStr ''operation-result'')
    \<and> response mtype (get_opid message) ''status'' = Some (PyStatus FAILED)
    \<and> response mtype (get_opid message) ''operation-id'' = Some (get_opid message)
    \<and> response mtype (get_opid message) ''result-text'' = Some (PyStr (result_text mtype))"
proof -
  have pending: "sends (fst (broadcast_message b replies message)) = []"
    if "\<exists>p\<in>set (registered_plugins b). replies p = None"
    using that
    by (simp add: broadcast_message_pending sends_append sends_get_objects sends_plugin_messages)
  have settled: "sends (fst (broadcast_message b replies message)) =
      sends (fst (message_delivered (successes (map replies (registered_plugins b))) message))"
    if "\<forall>p\<in>set (registered_plugins b). replies p \<noteq> None"
    using that
    by (simp add: broadcast_message_settled sends_append sends_get_objects sends_plugin_messages)
  show ?thesis
    using assms pending settled
    by (simp add: sends_message_delivered py_in_successes response_def)
qed

text \<open>
  The scenario of the spec: no plugin is registered and the message carries
  \<^verbatim>\<open>operation-id = 1\<close> and \<^verbatim>\<open>type = "X"\<close>; exactly one response is sent.
\<close>

theorem broadcast_failure_response_witness:
  "sends (fst (broadcast_message \<lparr>registered_plugins = []\<rparr> (\<lambda>p. None)
      [''type'' \<mapsto> PyStr ''X'', ''operation-id'' \<mapsto> PyInt 1])) =
     [(response (PyStr ''X'') (PyInt 1), True)]
   \<and> response (PyStr ''X'') (PyInt 1) ''status'' = Some (PyStatus FAILED)
   \<and> response (PyStr ''X'') (PyInt 1) ''operation-id'' = Some (PyInt 1)"
  using broadcast_failure_response
    [of "[''type'' \<mapsto> PyStr ''X'', ''operation-id'' \<mapsto> PyInt 1]" "PyStr ''X''"
        "\<lparr>registered_plugins = []\<rparr>" "\<lambda>p. None"]
  by (simp add: get_opid_def)

text \<open>
  C1 as the spec words it fails: a plugin that returns a non-empty string has returned a
  truthy result, and the failing response is sent all the same.
\<close>

theorem broadcast_truthy_result_counterexample:
  "truthy (PyStr ''handled'')
   \<and> sends (fst (broadcast_message \<lparr>registered_plugins = [(''com.example.Plugin'', ''/plugin'')]\<rparr>
        (\<lambda>p. Some (Success (PyStr ''handled'')))
        [''type'' \<mapsto> PyStr ''X'', ''operation-id'' \<mapsto> PyInt 1])) =
       [(response (PyStr ''X'') (PyInt 1), True)]"
  by (simp add: broadcast_message_def get_plugin_objects_def gather_results_def addCallback_def
      message_delivered_def get_opid_def py_in_def Let_def)



text \<open>
  C7. \<^verbatim>\<open>stop_plugins\<close> resolves every registered plugin with retry timeout 0 and
  calls \<^verbatim>\<open>exit()\<close> on each of them; its result is never a failure, and once all the
  \<^verbatim>\<open>exit()\<close> calls have settled it is \<^verbatim>\<open>None\<close>, however many of them failed.
\<close>

theorem stop_plugins_absorbs_failures:
  "fst (stop_plugins b exits) =
     map (\<lambda>p. GetObject p (Some 0)) (registered_plugins b) @ map PluginExit (registered_plugins b)
   \<and> (\<forall>e. snd (stop_plugins b exits) \<noteq> Some (Failure e))
   \<and> ((\<forall>p\<in>set (registered_plugins b). exits p \<noteq> None) \<longrightarrow>
        snd (stop_plugins b exits) = Some (Success PyNone))"
  by (simp add: fst_stop_plugins snd_stop_plugins)

theorem stop_plugins_absorbs_failures_witness:
  "stop_plugins \<lparr>registered_plugins = [(''a'', ''/a''), (''b'', ''/b'')]\<rparr>
     (\<lambda>p. if p = (''a'', ''/a'') then Some (Failure ''gone'') else Some (Success PyNone)) =
   ([GetObject (''a'', ''/a'') (Some 0), GetObject (''b'', ''/b'') (Some 0),
     PluginExit (''a'', ''/a''), PluginExit (''b'', ''/b'')], Some (Success PyNone))"
  using stop_plugins_absorbs_failures
    [of "\<lparr>registered_plugins = [(''a'', ''/a''), (''b'', ''/b'')]\<rparr>"
        "\<lambda>p. if p = (''a'', ''/a'') then Some (Failure ''gone'') else Some (Success PyNone)"]
  by (simp add: prod_eq_iff)

text \<open>
  C9. \<^verbatim>\<open>reload_configuration\<close> reloads the configuration and then does what
  \<^verbatim>\<open>stop_plugins\<close> does: every registered plugin is resolved with retry timeout 0
  and told to exit. No event is fired and no call is scheduled: neither
  \<^verbatim>\<open>"pre-exit"\<close> nor \<^verbatim>\<open>"post-exit"\<close>.
\<close>

theorem reload_configuration_stops_plugins_only:
  "reload_configuration b exits =
     (ConfigReload # map (\<lambda>p. GetObject p (Some 0)) (registered_plugins b)
        @ map PluginExit (registered_plugins b), snd (stop_plugins b exits))
   \<and> (\<forall>ev. ReactorFire ev \<notin> set (fst (reload_configuration b exits)))
   \<and> (\<forall>d a. ReactorCallLater d a \<notin> set (fst (reload_configuration b exits)))"
proof -
  have "reload_configuration b exits =
     (ConfigReload # fst (stop_plugins b exits), snd (stop_plugins b exits))"
    by (simp add: reload_configuration_def split_beta)
  then show ?thesis
    by (auto simp: fst_stop_plugins)
qed

theorem reload_configuration_stops_plugins_only_witness:
  "reload_configuration \<lparr>registered_plugins = [(''a'', ''/a'')]\<rparr> (\<lambda>p. Some (Success PyNone)) =
     ([ConfigReload, GetObject (''a'', ''/a'') (Some 0), PluginExit (''a'', ''/a'')],
      Some (Success PyNone))"
  using reload_configuration_stops_plugins_only
    [of "\<lparr>registered_plugins = [(''a'', ''/a'')]\<rparr>" "\<lambda>p. Some (Success PyNone)"]
  by (simp add: snd_stop_plugins)

text \<open>
  C2. \<^verbatim>\<open>exit\<close> fires \<^verbatim>\<open>"pre-exit"\<close> first, before it resolves or calls any
  plugin. Its result has fired exactly when all the \<^verbatim>\<open>exit()\<close> calls of the plugins
  have settled, and only then is the firing of \<^verbatim>\<open>"post-exit"\<close> scheduled, with
  delay 1, after everything else. \<^verbatim>\<open>exit\<close> itself never fires \<^verbatim>\<open>"post-exit"\<close>.
\<close>

theorem exit_broker_sequence:
  "exit_broker b exits =
     (if \<forall>p\<in>set (registered_plugins b). exits p \<noteq> None
      then (ReactorFire ''pre-exit''
              # map (\<lambda>p. GetObject p (Some 0)) (registered_plugins b)
              @ map PluginExit (registered_plugins b)
              @ [ReactorCallLater 1 (FireEvent ''post-exit'')],
            Some (Success PyNone))
      else (ReactorFire ''pre-exit''
              # map (\<lambda>p. GetObject p (Some 0)) (registered_plugins b)
              @ map PluginExit (registered_plugins b),
            None))
   \<and> ReactorFire ''post-exit'' \<notin> set (fst (exit_broker b exits))"
proof -
  have "exit_broker b exits =
      addBoth fire_post_exit
        (ReactorFire ''pre-exit'' # fst (stop_plugins b exits), snd (stop_plugins b exits))"
    by (simp add: exit_broker_def split_beta)
  then show ?thesis
    by (auto simp: fst_stop_plugins snd_stop_plugins addBoth_def fire_post_exit_def)
qed

theorem exit_broker_sequence_witness:
  "exit_broker \<lparr>registered_plugins = [(''a'', ''/a''), (''b'', ''/b'')]\<rparr>
     (\<lambda>p. if p = (''a'', ''/a'') then Some (Failure ''gone'') else Some (Success PyNone)) =
   ([ReactorFire ''pre-exit'',
     GetObject (''a'', ''/a'') (Some 0), GetObject (''b'', ''/b'') (Some 0),
     PluginExit (''a'', ''/a''), PluginExit (''b'', ''/b''),
     ReactorCallLater 1 (FireEvent ''post-exit'')], Some (Success PyNone))
   \<and> exit_broker \<lparr>registered_plugins = [(''a'', ''/a''), (''b'', ''/b'')]\<rparr>
     (\<lambda>p. if p = (''a'', ''/a'') then Some (Success PyNone) else None) =
   ([ReactorFire ''pre-exit'',
     GetObject (''a'', ''/a'') (Some 0), GetObject (''b'', ''/b'') (Some 0),
     PluginExit (''a'', ''/a''), PluginExit (''b'', ''/b'')], None)"
  using exit_broker_sequence
    [of "\<lparr>registered_plugins = [(''a'', ''/a''), (''b'', ''/b'')]\<rparr>"
        "\<lambda>p. if p = (''a'', ''/a'') then Some (Failure ''gone'') else Some (Success PyNone)"]
    exit_broker_sequence
    [of "\<lparr>registered_plugins = [(''a'', ''/a''), (''b'', ''/b'')]\<rparr>"
        "\<lambda>p. if p = (''a'', ''/a'') then Some (Success PyNone) else None"]
  by (simp add: prod_eq_iff)

section \<open>Properties of the reactor\<close>

subsection \<open>Events\<close>

lemma handler_ids_append: "handler_ids (xs @ ys) = handler_ids xs @ handler_ids ys"
  by (induction xs rule: handler_ids.induct) simp_all

lemma returned_append: "returned (xs @ ys) = returned xs @ returned ys"
  by (induction xs rule: returned.induct) simp_all

lemma raised_append: "raised (xs @ ys) = raised xs @ raised ys"
  by (induction xs rule: raised.induct) simp_all

lemma dispatch_trace:
  "\<exists>tr. trace (snd (dispatch ss args r)) = trace r @ tr
     \<and> handler_ids tr = map sub_id ss
     \<and> returned tr = fst (dispatch ss args r)
     \<and> logged (snd (dispatch ss args r)) = logged r @ map (\<lambda>(n, e). error_entry n e) (raised tr)
     \<and> length (returned tr) + length (raised tr) = length ss"
proof (induction ss arbitrary: r)
  case Nil
  show ?case by simp
next
  case (Cons s ss)
  obtain x u where h: "handler s args (user r) = (x, u)" by (cases "handler s args (user r)")
  show ?case
  proof (cases x)
    case (Returned v)
    let ?r1 = "r\<lparr>user := u, trace := trace r @ [CalledHandler (sub_id s) (handler_name s) (Returned v)]\<rparr>"
    from Cons.IH [of ?r1] obtain tr where
      tr: "trace (snd (dispatch ss args ?r1)) = trace ?r1 @ tr"
        "handler_ids tr = map sub_id ss"
        "returned tr = fst (dispatch ss args ?r1)"
        "logged (snd (dispatch ss args ?r1)) = logged ?r1 @ map (\<lambda>(n, e). error_entry n e) (raised tr)"
        "length (returned tr) + length (raised tr) = length ss"
      by blast
    have "dispatch (s # ss) args r = (v # fst (dispatch ss args ?r1), snd (dispatch ss args ?r1))"
      using h Returned by (simp add: split_beta)
    with tr show ?thesis
      by (intro exI [of _ "CalledHandler (sub_id s) (handler_name s) (Returned v) # tr"]) simp
  next
    case (Raised e)
    let ?r1 = "r\<lparr>user := u, trace := trace r @ [CalledHandler (sub_id s) (handler_name s) (Raised e)],
                 logged := logged r @ [error_entry (handler_name s) e]\<rparr>"
    from Cons.IH [of ?r1] obtain tr where
      tr: "trace (snd (dispatch ss args ?r1)) = trace ?r1 @ tr"
        "handler_ids tr = map sub_id ss"
        "returned tr = fst (dispatch ss args ?r1)"
        "logged (snd (dispatch ss args ?r1)) = logged ?r1 @ map (\<lambda>(n, e). error_entry n e) (raised tr)"
        "length (returned tr) + length (raised tr) = length ss"
      by blast
    have "dispatch (s # ss) args r = dispatch ss args ?r1"
      using h Raised by simp
    with tr show ?thesis
      by (intro exI [of _ "CalledHandler (sub_id s) (handler_name s) (Raised e) # tr"]) simp
  qed
qed

lemma fire_since:
  "trace (snd (fire ev args r)) = trace r @ since r (snd (fire ev args r))
   \<and> handler_ids (since r (snd (fire ev args r))) = map sub_id (sort_key priority (subscribed ev r))
   \<and> returned (since r (snd (fire ev args r))) = fst (fire ev args r)
   \<and> logged (snd (fire ev args r)) =
        logged r @ map (\<lambda>(n, e). error_entry n e) (raised (since r (snd (fire ev args r))))
   \<and> length (returned (since r (snd (fire ev args r)))) + length (raised (since r (snd (fire ev args r))))
        = length (subscribed ev r)"
proof -
  obtain tr where
    tr: "trace (snd (fire ev args r)) = trace r @ tr"
      "handler_ids tr = map sub_id (sort_key priority (subscribed ev r))"
      "returned tr = fst (fire ev args r)"
      "logged (snd (fire ev args r)) = logged r @ map (\<lambda>(n, e). error_entry n e) (raised tr)"
      "length (returned tr) + length (raised tr) = length (sort_key priority (subscribed ev r))"
    using dispatch_trace [of "sort_key priority (subscribed ev r)" args r]
    unfolding fire_def by blast
  from tr(1) have "since r (snd (fire ev args r)) = tr" by (simp add: since_def)
  with tr show ?thesis by simp
qed

lemma invocations_Cons:
  "invocations (s # ss) args u =
     CalledHandler (sub_id s) (handler_name s) (fst (handler s args u))
       # invocations ss args (snd (handler s args u))"
  by (simp add: invocations_def run_handlers_def map_upt_Suc del: upt_Suc)

lemma dispatch_threads:
  "trace (snd (dispatch ss args r)) = trace r @ invocations ss args (user r)
   \<and> user (snd (dispatch ss args r)) = run_handlers ss args (user r)"
proof (induction ss arbitrary: r)
  case Nil
  show ?case by (simp add: invocations_def run_handlers_def)
next
  case (Cons s0 ss)
  obtain x u where h: "handler s0 args (user r) = (x, u)" by (cases "handler s0 args (user r)")
  define r1 where "r1 =
    (case x of
       Returned v \<Rightarrow> r\<lparr>user := u, trace := trace r @ [CalledHandler (sub_id s0) (handler_name s0) x]\<rparr>
     | Raised e' \<Rightarrow> r\<lparr>user := u, trace := trace r @ [CalledHandler (sub_id s0) (handler_name s0) x],
                     logged := logged r @ [error_entry (handler_name s0) e']\<rparr>)"
  have step: "snd (dispatch (s0 # ss) args r) = snd (dispatch ss args r1)"
    using h by (cases x) (simp_all add: r1_def split_beta)
  have t1: "trace r1 = trace r @ [CalledHandler (sub_id s0) (handler_name s0) x]"
    by (cases x) (simp_all add: r1_def)
  have u1: "user r1 = u"
    by (cases x) (simp_all add: r1_def)
  have rh: "run_handlers (s0 # ss) args (user r) = run_handlers ss args u"
    using h by (simp add: run_handlers_def)
  have inv: "invocations (s0 # ss) args (user r) =
      CalledHandler (sub_id s0) (handler_name s0) x # invocations ss args u"
    using h by (simp add: invocations_Cons)
  from Cons.IH [of r1] show ?case
    by (simp only: step t1 u1 rh inv) simp
qed

lemma fire_threads:
  "since r (snd (fire ev args r)) = invocations (sort_key priority (subscribed ev r)) args (user r)
   \<and> user (snd (fire ev args r)) = run_handlers (sort_key priority (subscribed ev r)) args (user r)"
  using dispatch_threads [of "sort_key priority (subscribed ev r)" args r]
  by (simp add: fire_def since_def)

lemma raised_mem: "CalledHandler i n (Raised e) \<in> set tr \<Longrightarrow> (n, e) \<in> set (raised tr)"
  by (induction tr rule: raised.induct) auto

lemma length_invocations: "length (invocations ss args u) = length ss"
  by (simp add: invocations_def)

lemma nth_invocations:
  "k < length ss \<Longrightarrow>
   invocations ss args u ! k =
     CalledHandler (sub_id (ss ! k)) (handler_name (ss ! k))
       (fst (handler (ss ! k) args (run_handlers (take k ss) args u)))"
  by (simp add: invocations_def)

text \<open>
  C4. \<^verbatim>\<open>fire\<close> invokes the handlers subscribed to the event type, all of them and
  each once, in ascending order of priority, and in the order of registration among equal
  priorities: what it records is the invocation of each handler of that order, with the
  arguments of the event, on the state the handlers before it have left, and the state of
  the program afterwards is the one all these handlers have made. Its result is the list
  of the values these invocations returned, in the order of invocation. A subscription
  made without a priority has priority 0.
\<close>

theorem fire_priority_order:
  "(let order = sort_key priority (subscribed ev r); r' = snd (fire ev args r) in
      since r r' = invocations order args (user r)
      \<and> user r' = run_handlers order args (user r)
      \<and> fst (fire ev args r) = returned (since r r')
      \<and> handler_ids (since r r') = map sub_id order
      \<and> sorted (map priority order)
      \<and> set order = set (subscribed ev r)
      \<and> length order = length (subscribed ev r)
      \<and> (\<forall>k. filter (\<lambda>s. priority s = k) order = filter (\<lambda>s. priority s = k) (subscribed ev r)))
   \<and> subscribed ev' (snd (call_on_default ev' name h r)) =
        subscribed ev' r @ [\<lparr>sub_id = next_id r, event_type = ev', handler_name = name, handler = h, priority = 0\<rparr>]"
proof -
  note fs = fire_since [of ev args r]
  note ft = fire_threads [of r ev args]
  from ft have a1: "since r (snd (fire ev args r)) =
      invocations (sort_key priority (subscribed ev r)) args (user r)" by (rule conjunct1)
  from ft have a2: "user (snd (fire ev args r)) =
      run_handlers (sort_key priority (subscribed ev r)) args (user r)" by (rule conjunct2)
  from fs have a3: "fst (fire ev args r) = returned (since r (snd (fire ev args r)))" by simp
  from fs have a4: "handler_ids (since r (snd (fire ev args r))) =
      map sub_id (sort_key priority (subscribed ev r))" by blast
  have a5: "sorted (map priority (sort_key priority (subscribed ev r)))" by simp
  have a6: "set (sort_key priority (subscribed ev r)) = set (subscribed ev r)" by simp
  have a7: "length (sort_key priority (subscribed ev r)) = length (subscribed ev r)" by simp
  have a8: "\<forall>k. filter (\<lambda>s. priority s = k) (sort_key priority (subscribed ev r)) =
      filter (\<lambda>s. priority s = k) (subscribed ev r)" by (simp add: sort_key_stable)
  have a9: "subscribed ev' (snd (call_on_default ev' name h r)) =
        subscribed ev' r @ [\<lparr>sub_id = next_id r, event_type = ev', handler_name = name, handler = h, priority = 0\<rparr>]"
    by (simp add: call_on_default_def call_on_def subscribed_def)
  show ?thesis unfolding Let_def by (intro conjI a1 a2 a3 a4 a5 a6 a7 a8 a9)
qed

theorem fire_priority_order_witness:
  "fst (fire (Tag ''foobar'') []
     (snd (call_on (Tag ''foobar'') ''minus'' (\<lambda>args called. (Returned (PyInt (- 1)), called @ [PyInt (- 1)])) (- 1)
       (snd (call_on_default (Tag ''foobar'') ''zero'' (\<lambda>args called. (Returned (PyInt 0), called @ [PyInt 0]))
         (snd (call_on (Tag ''foobar'') ''one'' (\<lambda>args called. (Returned (PyInt 1), called @ [PyInt 1])) 1
           (FakeReactor []))))))))
   = [PyInt (- 1), PyInt 0, PyInt 1]
   \<and> user (snd (fire (Tag ''foobar'') []
     (snd (call_on (Tag ''foobar'') ''minus'' (\<lambda>args called. (Returned (PyInt (- 1)), called @ [PyInt (- 1)])) (- 1)
       (snd (call_on_default (Tag ''foobar'') ''zero'' (\<lambda>args called. (Returned (PyInt 0), called @ [PyInt 0]))
         (snd (call_on (Tag ''foobar'') ''one'' (\<lambda>args called. (Returned (PyInt 1), called @ [PyInt 1])) 1
           (FakeReactor [])))))))))
   = [PyInt (- 1), PyInt 0, PyInt 1]
   \<and> fst (fire (Tag ''foobar'') []
     (snd (call_on_default (Tag ''foobar'') ''generator'' (\<lambda>args n. (Returned (PyInt (n + 1)), n + 1))
       (snd (call_on_default (Tag ''foobar'') ''generator'' (\<lambda>args n. (Returned (PyInt (n + 1)), n + 1))
         (snd (call_on_default (Tag ''foobar'') ''generator'' (\<lambda>args n. (Returned (PyInt (n + 1)), n + 1))
           (FakeReactor 0))))))))
   = [PyInt 1, PyInt 2, PyInt 3]"
proof -
  let ?r = "snd (call_on (Tag ''foobar'') ''minus'' (\<lambda>args called. (Returned (PyInt (- 1)), called @ [PyInt (- 1)])) (- 1)
       (snd (call_on_default (Tag ''foobar'') ''zero'' (\<lambda>args called. (Returned (PyInt 0), called @ [PyInt 0]))
         (snd (call_on (Tag ''foobar'') ''one'' (\<lambda>args called. (Returned (PyInt 1), called @ [PyInt 1])) 1
           (FakeReactor ([] :: pyval list)))))))"
  let ?g = "snd (call_on_default (Tag ''foobar'') ''generator'' (\<lambda>args n. (Returned (PyInt (n + 1)), n + 1))
       (snd (call_on_default (Tag ''foobar'') ''generator'' (\<lambda>args n. (Returned (PyInt (n + 1)), n + 1))
         (snd (call_on_default (Tag ''foobar'') ''generator'' (\<lambda>args n. (Returned (PyInt (n + 1)), n + 1))
           (FakeReactor (0 :: int)))))))"
  have o1: "sort_key priority (subscribed (Tag ''foobar'') ?r) =
      [\<lparr>sub_id = 2, event_type = Tag ''foobar'', handler_name = ''minus'',
        handler = (\<lambda>args called. (Returned (PyInt (- 1)), called @ [PyInt (- 1)])), priority = - 1\<rparr>,
       \<lparr>sub_id = 1, event_type = Tag ''foobar'', handler_name = ''zero'',
        handler = (\<lambda>args called. (Returned (PyInt 0), called @ [PyInt 0])), priority = 0\<rparr>,
       \<lparr>sub_id = 0, event_type = Tag ''foobar'', handler_name = ''one'',
        handler = (\<lambda>args called. (Returned (PyInt 1), called @ [PyInt 1])), priority = 1\<rparr>]"
    by (simp add: subscribed_def call_on_def call_on_default_def FakeReactor_def)
  have u1: "user ?r = []"
    by (simp add: call_on_def call_on_default_def FakeReactor_def)
  have o2: "sort_key priority (subscribed (Tag ''foobar'') ?g) =
      [\<lparr>sub_id = 0, event_type = Tag ''foobar'', handler_name = ''generator'',
        handler = (\<lambda>args n. (Returned (PyInt (n + 1)), n + 1)), priority = 0\<rparr>,
       \<lparr>sub_id = 1, event_type = Tag ''foobar'', handler_name = ''generator'',
        handler = (\<lambda>args n. (Returned (PyInt (n + 1)), n + 1)), priority = 0\<rparr>,
       \<lparr>sub_id = 2, event_type = Tag ''foobar'', handler_name = ''generator'',
        handler = (\<lambda>args n. (Returned (PyInt (n + 1)), n + 1)), priority = 0\<rparr>]"
    by (simp add: subscribed_def call_on_def call_on_default_def FakeReactor_def)
  have u2: "user ?g = 0"
    by (simp add: call_on_def call_on_default_def FakeReactor_def)
  from fire_priority_order [where r = ?r and ev = "Tag ''foobar''" and args = "[]"]
  have p: "fst (fire (Tag ''foobar'') [] ?r) =
        returned (invocations (sort_key priority (subscribed (Tag ''foobar'') ?r)) [] (user ?r))
      \<and> user (snd (fire (Tag ''foobar'') [] ?r)) =
        run_handlers (sort_key priority (subscribed (Tag ''foobar'') ?r)) [] (user ?r)"
    unfolding Let_def by simp
  from fire_priority_order [where r = ?g and ev = "Tag ''foobar''" and args = "[]"]
  have q: "fst (fire (Tag ''foobar'') [] ?g) =
        returned (invocations (sort_key priority (subscribed (Tag ''foobar'') ?g)) [] (user ?g))"
    unfolding Let_def by simp
  have p1: "fst (fire (Tag ''foobar'') [] ?r) = [PyInt (- 1), PyInt 0, PyInt 1]"
    using p unfolding o1 u1 by (simp add: invocations_Cons invocations_def run_handlers_def)
  have p2: "user (snd (fire (Tag ''foobar'') [] ?r)) = [PyInt (- 1), PyInt 0, PyInt 1]"
    using p unfolding o1 u1 by (simp add: run_handlers_def)
  have q1: "fst (fire (Tag ''foobar'') [] ?g) = [PyInt 1, PyInt 2, PyInt 3]"
    using q unfolding o2 u2 by (simp add: invocations_Cons invocations_def run_handlers_def)
  show ?thesis by (intro conjI p1 p2 q1)
qed

text \<open>
  C5. When a handler raises, that is when the \<open>k\<close>-th handler in the order of
  invocation raises on the state it is invoked on, \<^verbatim>\<open>fire\<close> still invokes every
  subscribed handler, those before it and those after it, and the state of the program
  afterwards is the one all of them have made; the exception is logged, with the name of
  the handler; the result holds the values of the handlers that returned and nothing for
  a handler that raised. \<^verbatim>\<open>fire\<close> itself always returns its list: no exception
  reaches its caller.
\<close>

theorem fire_handler_exception:
  assumes "k < length (subscribed ev r)"
    and "fst (handler (sort_key priority (subscribed ev r) ! k) args
               (run_handlers (take k (sort_key priority (subscribed ev r))) args (user r))) = Raised e"
  shows "(let order = sort_key priority (subscribed ev r); r' = snd (fire ev args r) in
      since r r' = invocations order args (user r)
      \<and> length (since r r') = length (subscribed ev r)
      \<and> set order = set (subscribed ev r)
      \<and> user r' = run_handlers order args (user r)
      \<and> since r r' ! k = CalledHandler (sub_id (order ! k)) (handler_name (order ! k)) (Raised e)
      \<and> error_entry (handler_name (order ! k)) e \<in> set (logged r')
      \<and> logged r' = logged r @ map (\<lambda>(n, e). error_entry n e) (raised (since r r'))
      \<and> fst (fire ev args r) = returned (since r r')
      \<and> length (fst (fire ev args r)) + length (raised (since r r')) = length (subscribed ev r)
      \<and> length (fst (fire ev args r)) < length (subscribed ev r))"
proof -
  define order where "order = sort_key priority (subscribed ev r)"
  define r' where "r' = snd (fire ev args r)"
  note fs = fire_since [of ev args r, folded r'_def order_def]
  note ft = fire_threads [of r ev args, folded r'_def order_def]
  have len: "length order = length (subscribed ev r)" by (simp add: order_def)
  with assms(1) have k: "k < length order" by simp
  from ft have a1: "since r r' = invocations order args (user r)" by (rule conjunct1)
  from ft have a2: "user r' = run_handlers order args (user r)" by (rule conjunct2)
  have a0: "length (since r r') = length (subscribed ev r)"
    by (simp add: a1 length_invocations len)
  have a00: "set order = set (subscribed ev r)" by (simp add: order_def)
  have a3: "since r r' ! k = CalledHandler (sub_id (order ! k)) (handler_name (order ! k)) (Raised e)"
    using assms(2) k by (simp add: a1 nth_invocations order_def)
  have "since r r' ! k \<in> set (since r r')"
    using k by (simp add: a1 length_invocations)
  with a3 have "CalledHandler (sub_id (order ! k)) (handler_name (order ! k)) (Raised e) \<in> set (since r r')"
    by simp
  then have rs: "(handler_name (order ! k), e) \<in> set (raised (since r r'))" by (rule raised_mem)
  then have "error_entry (handler_name (order ! k)) e
      \<in> set (map (\<lambda>(n, e). error_entry n e) (raised (since r r')))"
    by force
  moreover from fs have a5: "logged r' = logged r @ map (\<lambda>(n, e). error_entry n e) (raised (since r r'))"
    by blast
  ultimately have a4: "error_entry (handler_name (order ! k)) e \<in> set (logged r')" by simp
  from fs have a6: "fst (fire ev args r) = returned (since r r')" by simp
  from fs have "length (returned (since r r')) + length (raised (since r r')) = length (subscribed ev r)"
    by blast
  then have a7: "length (fst (fire ev args r)) + length (raised (since r r')) = length (subscribed ev r)"
    by (simp only: a6 [symmetric])
  from rs have "0 < length (raised (since r r'))" by (cases "raised (since r r')") simp_all
  with a7 have a8: "length (fst (fire ev args r)) < length (subscribed ev r)" by linarith
  show ?thesis
    unfolding Let_def order_def [symmetric] r'_def [symmetric]
    by (intro conjI a1 a0 a00 a2 a3 a4 a5 a6 a7 a8)
qed

theorem fire_handler_exception_witness:
  "fire (Tag ''foobar'') []
     \<lparr>current_time = 0, next_id = 3, calls = [],
      subs = [\<lparr>sub_id = 0, event_type = Tag ''foobar'', handler_name = ''handle_one'',
               handler = (\<lambda>args called. (Returned PyNone, called @ [PyInt 1])), priority = 0\<rparr>,
              \<lparr>sub_id = 1, event_type = Tag ''foobar'', handler_name = ''handle_two'',
               handler = (\<lambda>args called. (Raised ''ZeroDivisionError'', called)), priority = 0\<rparr>,
              \<lparr>sub_id = 2, event_type = Tag ''foobar'', handler_name = ''handle_three'',
               handler = (\<lambda>args called. (Returned PyNone, called @ [PyInt 3])), priority = 0\<rparr>],
      main_queue = [], logged = [], user = [], trace = []\<rparr> =
   ([PyNone, PyNone],
     \<lparr>current_time = 0, next_id = 3, calls = [],
      subs = [\<lparr>sub_id = 0, event_type = Tag ''foobar'', handler_name = ''handle_one'',
               handler = (\<lambda>args called. (Returned PyNone, called @ [PyInt 1])), priority = 0\<rparr>,
              \<lparr>sub_id = 1, event_type = Tag ''foobar'', handler_name = ''handle_two'',
               handler = (\<lambda>args called. (Raised ''ZeroDivisionError'', called)), priority = 0\<rparr>,
              \<lparr>sub_id = 2, event_type = Tag ''foobar'', handler_name = ''handle_three'',
               handler = (\<lambda>args called. (Returned PyNone, called @ [PyInt 3])), priority = 0\<rparr>],
      main_queue = [], logged = [''Error running event handler handle_two: ZeroDivisionError''],
      user = [PyInt 1, PyInt 3],
      trace = [CalledHandler 0 ''handle_one'' (Returned PyNone),
               CalledHandler 1 ''handle_two'' (Raised ''ZeroDivisionError''),
               CalledHandler 2 ''handle_three'' (Returned PyNone)]\<rparr>)"
  using fire_handler_exception
    [where k = 1 and ev = "Tag ''foobar''" and args = "[]" and e = "''ZeroDivisionError''"
       and r = "\<lparr>current_time = 0, next_id = 3, calls = [],
      subs = [\<lparr>sub_id = 0, event_type = Tag ''foobar'', handler_name = ''handle_one'',
               handler = (\<lambda>args called. (Returned PyNone, called @ [PyInt 1])), priority = 0\<rparr>,
              \<lparr>sub_id = 1, event_type = Tag ''foobar'', handler_name = ''handle_two'',
               handler = (\<lambda>args called. (Raised ''ZeroDivisionError'', called :: pyval list)), priority = 0\<rparr>,
              \<lparr>sub_id = 2, event_type = Tag ''foobar'', handler_name = ''handle_three'',
               handler = (\<lambda>args called. (Returned PyNone, called @ [PyInt 3])), priority = 0\<rparr>],
      main_queue = [], logged = [], user = [], trace = []\<rparr>"]
  by (simp add: fire_def subscribed_def error_entry_def)

subsection \<open>Timed calls\<close>






































end
